theory Spec2Isabelle
  imports Complex_Main
begin

section \<open>JavaScript values\<close>

text \<open>
  Both source files handle values that come out of \<^verbatim>\<open>JSON.parse\<close> and are typed
  \<^verbatim>\<open>any\<close> at run time: the endpoint destructures \<^verbatim>\<open>await req.json()\<close>, the form component
  reads \<^verbatim>\<open>await response.json()\<close>. The model therefore carries the JavaScript value itself
  and writes out the language operations the code applies to it: truthiness (\<^verbatim>\<open>!x\<close>,
  \<^verbatim>\<open>a || b\<close>), property access, \<^verbatim>\<open>Array.prototype.includes\<close>, \<^verbatim>\<open>===\<close> and string
  conversion.

  A number is the value of an IEEE double: a rational, an infinity (which \<^verbatim>\<open>JSON.parse\<close>
  yields for a literal such as \<^verbatim>\<open>1e999\<close>) or NaN. Strings are lists of characters
  with codes below 256. An object is the list of its own properties, each key once.
\<close>

datatype jsnum = Finite rat | PosInfinity | NegInfinity | NaN

datatype jsval =
    JUndefined
  | JNull
  | JBool bool
  | JNum jsnum
  | JStr string
  | JArr "jsval list"
  | JObj "(string \<times> jsval) list"

text \<open>
  A thrown value. \<^verbatim>\<open>x instanceof Error\<close> holds exactly for \<open>ErrorObj\<close>, whose argument is
  the \<^verbatim>\<open>message\<close> property.
\<close>

datatype thrown = ErrorObj string | NonError jsval

text \<open>ToBoolean: \<^verbatim>\<open>undefined\<close>, \<^verbatim>\<open>null\<close>, \<^verbatim>\<open>false\<close>, \<^verbatim>\<open>0\<close>, \<^verbatim>\<open>NaN\<close> and \<^verbatim>\<open>""\<close> are falsy.\<close>

fun truthy :: "jsval \<Rightarrow> bool" where
  "truthy JUndefined = False"
| "truthy JNull = False"
| "truthy (JBool b) = b"
| "truthy (JNum (Finite r)) = (r \<noteq> 0)"
| "truthy (JNum PosInfinity) = True"
| "truthy (JNum NegInfinity) = True"
| "truthy (JNum NaN) = False"
| "truthy (JStr s) = (s \<noteq> [])"
| "truthy (JArr xs) = True"
| "truthy (JObj kvs) = True"

text \<open>
  The message of the TypeError thrown when a property of \<^verbatim>\<open>null\<close> or \<^verbatim>\<open>undefined\<close> is
  read. Its wording is chosen by the engine (this is V8's stem); nothing below depends on
  the wording.
\<close>

definition nullish_property_message :: "string \<Rightarrow> string" where
  "nullish_property_message k = ''Cannot read properties of null or undefined (reading '' @ k @ '')''"

text \<open>
  Property access \<^verbatim>\<open>v.k\<close>, for the property names the two files read (\<^verbatim>\<open>prompt\<close>,
  \<^verbatim>\<open>type\<close>, \<^verbatim>\<open>content\<close>, \<^verbatim>\<open>error\<close>), none of which is defined on a built-in prototype:
  on \<^verbatim>\<open>null\<close> and \<^verbatim>\<open>undefined\<close> it throws a TypeError, on an object it is the own property
  or \<^verbatim>\<open>undefined\<close>, on every other value it is \<^verbatim>\<open>undefined\<close>. The destructuring
  \<^verbatim>\<open>const { prompt, type } = v\<close> reads the two properties in the same way and throws the
  same kind of error on \<^verbatim>\<open>null\<close>.
\<close>

fun get_prop :: "jsval \<Rightarrow> string \<Rightarrow> thrown + jsval" where
  "get_prop JUndefined k = Inl (ErrorObj (nullish_property_message k))"
| "get_prop JNull k = Inl (ErrorObj (nullish_property_message k))"
| "get_prop (JObj kvs) k = Inr (case map_of kvs k of None \<Rightarrow> JUndefined | Some v \<Rightarrow> v)"
| "get_prop v k = Inr JUndefined"

text \<open>
  \<^verbatim>\<open>xs.includes(v)\<close> for an array \<open>xs\<close> of string literals: SameValueZero equates \<open>v\<close>
  with a string only when \<open>v\<close> is that string.
\<close>

fun includes_js :: "string list \<Rightarrow> jsval \<Rightarrow> bool" where
  "includes_js xs (JStr s) = (s \<in> set xs)"
| "includes_js xs v = False"

section \<open>The generation endpoint (src/app/api/generate/route.ts)\<close>

text \<open>\<^verbatim>\<open>process.env\<close>: the variable is unset or holds a string.\<close>

record env =
  GEMINI_API_KEY :: "string option"

text \<open>
  The body of an HTTP message as its \<^verbatim>\<open>json()\<close> method sees it: text that is not JSON
  (the method rejects with a SyntaxError carrying the given message) or the parsed value.
\<close>

datatype payload = Unparseable string | Parsed jsval

fun json :: "payload \<Rightarrow> thrown + jsval" where
  "json (Unparseable m) = Inl (ErrorObj m)"
| "json (Parsed v) = Inr v"

text \<open>\<^verbatim>\<open>NextResponse.json(body, { status })\<close>; the status is 200 when none is given.\<close>

record response =
  status :: nat
  body :: jsval

definition NextResponse_json :: "jsval \<Rightarrow> nat \<Rightarrow> response" where
  "NextResponse_json b st = \<lparr>status = st, body = b\<rparr>"

text \<open>
  The external provider: \<^verbatim>\<open>new GoogleGenerativeAI(key).getGenerativeModel({ model })
  .generateContent(prompt)\<close> followed by \<^verbatim>\<open>result.response.text()\<close>. It is opaque to the
  repository, so it is a parameter: given the key, the model identifier and the prompt it
  throws or returns the generated text.
\<close>

type_synonym provider = "string \<Rightarrow> string \<Rightarrow> jsval \<Rightarrow> thrown + string"

text \<open>
  What the handler does besides answering: whether it read the request body, the provider
  calls it made (key, model, prompt) and what it wrote with \<^verbatim>\<open>console.error\<close>.
\<close>

record server_effects =
  body_read :: bool
  provider_calls :: "(string \<times> string \<times> jsval) list"
  console_errors :: "thrown list"

definition no_effects :: server_effects where
  "no_effects = \<lparr>body_read = False, provider_calls = [], console_errors = []\<rparr>"

definition error_body :: "string \<Rightarrow> jsval" where
  "error_body m = JObj [(''error'', JStr m)]"

text \<open>
  Lines 14 to 38 of \<^verbatim>\<open>POST\<close>, reached with the non-empty key \<open>key\<close>: \<open>Inl\<close> is an
  exception leaving the \<^verbatim>\<open>try\<close> block, \<open>Inr\<close> a response returned from it.
\<close>

definition POST_with_key :: "string \<Rightarrow> payload \<Rightarrow> provider \<Rightarrow> (thrown + response) \<times> server_effects" where
  "POST_with_key key req prov =
    (let fx = no_effects\<lparr>body_read := True\<rparr> in
     case json req of
       Inl ex \<Rightarrow> (Inl ex, fx)
     | Inr b \<Rightarrow>
       (case get_prop b ''prompt'' of
          Inl ex \<Rightarrow> (Inl ex, fx)
        | Inr p \<Rightarrow>
          (case get_prop b ''type'' of
             Inl ex \<Rightarrow> (Inl ex, fx)
           | Inr t \<Rightarrow>
             if \<not> truthy p \<or> \<not> truthy t \<or> \<not> includes_js [''text'', ''image''] t then
               (Inr (NextResponse_json
                      (error_body ''Prompt and valid type (text or image) are required'') 400),
                fx)
             else if t = JStr ''text'' then
               let fx' = fx\<lparr>provider_calls := [(key, ''gemini-1.5-flash'', p)]\<rparr> in
               (case prov key ''gemini-1.5-flash'' p of
                  Inl ex \<Rightarrow> (Inl ex, fx')
                | Inr text \<Rightarrow>
                  (Inr (NextResponse_json
                         (JObj [(''type'', JStr ''text''), (''content'', JStr text)]) 200),
                   fx'))
             else
               (Inr (NextResponse_json
                      (error_body ''Image generation not supported in this version'') 501),
                fx))))"

text \<open>
  The \<^verbatim>\<open>try\<close> block of \<^verbatim>\<open>POST\<close> from its first line: \<^verbatim>\<open>!process.env.GEMINI_API_KEY\<close>
  is true when the variable is unset and when it is the empty string.
\<close>

definition missing_key_response :: response where
  "missing_key_response =
     NextResponse_json (error_body ''Server configuration error: Missing API key'') 500"

definition POST_try :: "env \<Rightarrow> payload \<Rightarrow> provider \<Rightarrow> (thrown + response) \<times> server_effects" where
  "POST_try e req prov =
    (case GEMINI_API_KEY e of
       None \<Rightarrow> (Inr missing_key_response, no_effects)
     | Some key \<Rightarrow>
       if key = [] then (Inr missing_key_response, no_effects)
       else POST_with_key key req prov)"

text \<open>
  The whole handler: the \<^verbatim>\<open>catch\<close> clause of lines 39 to 44 logs the exception and
  answers 500 with its message when it is an \<^verbatim>\<open>Error\<close>, with a fixed text otherwise.
\<close>

definition POST :: "env \<Rightarrow> payload \<Rightarrow> provider \<Rightarrow> response \<times> server_effects" where
  "POST e req prov =
    (case POST_try e req prov of
       (Inr r, fx) \<Rightarrow> (r, fx)
     | (Inl ex, fx) \<Rightarrow>
       let errorMessage = (case ex of ErrorObj m \<Rightarrow> m | NonError v \<Rightarrow> ''Internal server error'')
       in (NextResponse_json (error_body errorMessage) 500,
           fx\<lparr>console_errors := console_errors fx @ [ex]\<rparr>))"

section \<open>String conversion\<close>

text \<open>
  ToString, which \<^verbatim>\<open>new Error(x)\<close> and a template literal apply to a value. The decimal
  text of a number is the platform's (\<^verbatim>\<open>Number.prototype.toString\<close>) and is the parameter
  \<open>nf\<close>. An array is its elements joined by commas, \<^verbatim>\<open>null\<close> and \<^verbatim>\<open>undefined\<close> elements
  as the empty string. An object parsed from JSON is \<^verbatim>\<open>[object Object]\<close>, unless it has an
  own property \<^verbatim>\<open>toString\<close>: that property is data, not a function, so the conversion
  throws a TypeError.
\<close>

fun ToString :: "(jsnum \<Rightarrow> string) \<Rightarrow> jsval \<Rightarrow> thrown + string"
  and join :: "(jsnum \<Rightarrow> string) \<Rightarrow> jsval list \<Rightarrow> thrown + string" where
  "ToString nf JUndefined = Inr ''undefined''"
| "ToString nf JNull = Inr ''null''"
| "ToString nf (JBool b) = Inr (if b then ''true'' else ''false'')"
| "ToString nf (JNum n) = Inr (nf n)"
| "ToString nf (JStr s) = Inr s"
| "ToString nf (JArr xs) = join nf xs"
| "ToString nf (JObj kvs) =
     (if map_of kvs ''toString'' = None then Inr ''[object Object]''
      else Inl (ErrorObj ''Cannot convert object to primitive value''))"
| "join nf [] = Inr []"
| "join nf (x # xs) =
     (case (if x = JNull \<or> x = JUndefined then Inr [] else ToString nf x) of
        Inl ex \<Rightarrow> Inl ex
      | Inr s \<Rightarrow>
        if xs = [] then Inr s
        else (case join nf xs of Inl ex \<Rightarrow> Inl ex | Inr r \<Rightarrow> Inr (s @ '','' @ r)))"

text \<open>The decimal text of a natural number, as a template literal prints an HTTP status.\<close>

fun show_nat :: "nat \<Rightarrow> string" where
  "show_nat n =
     (if n < 10 then [''0123456789'' ! n]
      else show_nat (n div 10) @ [''0123456789'' ! (n mod 10)])"

declare show_nat.simps [simp del]

section \<open>The form component (default export Home)\<close>

datatype GenerationType = TypeText | TypeImage

definition GENERATION_TYPES :: "GenerationType list" where
  "GENERATION_TYPES = [TypeText, TypeImage]"

text \<open>The string a \<^verbatim>\<open>GenerationType\<close> is in the source.\<close>

fun type_string :: "GenerationType \<Rightarrow> string" where
  "type_string TypeText = ''text''"
| "type_string TypeImage = ''image''"

record FormError =
  message :: string

text \<open>
  The five \<^verbatim>\<open>useState\<close> cells of \<^verbatim>\<open>Home\<close>. \<open>result\<close> holds whatever \<^verbatim>\<open>setResult(data)\<close>
  stored: the parsed response body, which the source only asserts to be a
  \<^verbatim>\<open>GenerateResponse\<close>.
\<close>

record Home_state =
  prompt :: string
  type :: GenerationType
  result :: "jsval option"
  loading :: bool
  error :: "FormError option"

text \<open>
  \<^verbatim>\<open>String.prototype.trim\<close> removes white space and line terminators from both ends; of the
  characters below 256 these are tab, line feed, vertical tab, form feed, carriage return,
  space and no-break space.
\<close>

definition is_white_space :: "char \<Rightarrow> bool" where
  "is_white_space c =
     (c \<in> set [CHR 0x09, CHR 0x0A, CHR 0x0B, CHR 0x0C, CHR 0x0D, CHR 0x20, CHR 0xA0])"

definition trim :: "string \<Rightarrow> string" where
  "trim s = rev (dropWhile is_white_space (rev (dropWhile is_white_space s)))"

definition isFormValid :: "Home_state \<Rightarrow> bool" where
  "isFormValid s = (length (trim (prompt s)) > 0 \<and> type s \<in> set GENERATION_TYPES)"

text \<open>A \<^verbatim>\<open>sonner\<close> notification: its title and its description.\<close>

datatype toast = toast_error string string | toast_success string string

text \<open>
  What a handler does besides setting state: the bodies it posted to \<^verbatim>\<open>/api/generate\<close>
  (the object given to \<^verbatim>\<open>JSON.stringify\<close>) and the notifications it showed.
\<close>

record client_effects =
  fetches :: "jsval list"
  toasts :: "toast list"

text \<open>
  The outcome of \<^verbatim>\<open>await fetch(...)\<close>: the promise rejects (network failure, the 30 second
  \<^verbatim>\<open>AbortSignal.timeout\<close>) or resolves to a response with a status and a body.
\<close>

record fetch_response =
  resp_status :: nat
  resp_payload :: payload

datatype fetch_outcome = Rejected thrown | Resolved fetch_response

text \<open>\<^verbatim>\<open>response.ok\<close>: the status is in the range 200 to 299.\<close>

definition ok :: "fetch_response \<Rightarrow> bool" where
  "ok r = (200 \<le> resp_status r \<and> resp_status r \<le> 299)"

definition invalid_response :: thrown where
  "invalid_response = ErrorObj ''Invalid response from the abyss''"

text \<open>
  The \<^verbatim>\<open>try\<close> block of \<^verbatim>\<open>handleSubmit\<close> after \<^verbatim>\<open>fetch\<close> has settled (lines 66 to 85). The
  first component is the exception that leaves the block, if any; state and effects are
  those reached at that point.
\<close>

definition submit_try ::
  "(jsnum \<Rightarrow> string) \<Rightarrow> fetch_outcome \<Rightarrow> Home_state \<Rightarrow> client_effects
     \<Rightarrow> thrown option \<times> Home_state \<times> client_effects" where
  "submit_try nf outcome s fx =
    (case outcome of
       Rejected ex \<Rightarrow> (Some ex, s, fx)
     | Resolved r \<Rightarrow>
       if \<not> ok r then
         let errorData = (case json (resp_payload r) of Inl ex \<Rightarrow> JObj [] | Inr v \<Rightarrow> v) in
         (case get_prop errorData ''error'' of
            Inl ex \<Rightarrow> (Some ex, s, fx)
          | Inr v \<Rightarrow>
            (case (if truthy v then ToString nf v
                   else Inr (''HTTP error! Status: '' @ show_nat (resp_status r))) of
               Inl ex \<Rightarrow> (Some ex, s, fx)
             | Inr m \<Rightarrow> (Some (ErrorObj m), s, fx)))
       else
         (case json (resp_payload r) of
            Inl ex \<Rightarrow> (Some ex, s, fx)
          | Inr data \<Rightarrow>
            (case get_prop data ''type'' of
               Inl ex \<Rightarrow> (Some ex, s, fx)
             | Inr t \<Rightarrow>
               if \<not> truthy t then (Some invalid_response, s, fx)
               else
                 (case get_prop data ''content'' of
                    Inl ex \<Rightarrow> (Some ex, s, fx)
                  | Inr c \<Rightarrow>
                    if \<not> truthy c then (Some invalid_response, s, fx)
                    else
                      let s' = s\<lparr>result := Some data\<rparr> in
                      (case ToString nf t of
                         Inl ex \<Rightarrow> (Some ex, s', fx)
                       | Inr ts \<Rightarrow>
                         (None, s',
                          fx\<lparr>toasts := toasts fx @
                             [toast_success ''Creation Summoned''
                               (''Your '' @ ts @ '' has emerged from the shadows.'')]\<rparr>))))))"

text \<open>
  The object \<^verbatim>\<open>{ prompt, type }\<close> that \<^verbatim>\<open>handleSubmit\<close> serialises into the request (line
  63), and the state after its three \<^verbatim>\<open>set...\<close> calls of lines 55 to 57.
\<close>

definition request_body :: "Home_state \<Rightarrow> jsval" where
  "request_body s = JObj [(''prompt'', JStr (prompt s)), (''type'', JStr (type_string (type s)))]"

definition submit_start :: "Home_state \<Rightarrow> Home_state" where
  "submit_start s = s\<lparr>loading := True, error := None, result := None\<rparr>"

text \<open>
  \<^verbatim>\<open>handleSubmit\<close>, run to completion from the state \<open>s\<close> its closure captured. \<open>net\<close> is the
  network: what \<^verbatim>\<open>fetch\<close> settles to for the posted body. The result is the state after
  all \<^verbatim>\<open>set...\<close> calls have been applied, and the effects. The \<^verbatim>\<open>catch\<close> clause stores
  the message of an \<^verbatim>\<open>Error\<close> and a fixed text for any other thrown value; the
  \<^verbatim>\<open>finally\<close> clause clears the loading flag.
\<close>

definition handleSubmit ::
  "(jsnum \<Rightarrow> string) \<Rightarrow> (jsval \<Rightarrow> fetch_outcome) \<Rightarrow> Home_state
     \<Rightarrow> Home_state \<times> client_effects" where
  "handleSubmit nf net s =
    (if \<not> isFormValid s then
       (s\<lparr>error := Some \<lparr>message = ''A valid incantation and type are required.''\<rparr>\<rparr>,
        \<lparr>fetches = [],
         toasts = [toast_error ''Forbidden Incantation''
                    ''Provide a proper prompt and select a creation type.'']\<rparr>)
     else
       (case submit_try nf (net (request_body s)) (submit_start s)
               \<lparr>fetches = [request_body s], toasts = []\<rparr> of
          (None, s2, fx2) \<Rightarrow> (s2\<lparr>loading := False\<rparr>, fx2)
        | (Some err, s2, fx2) \<Rightarrow>
          let errorMessage =
                (case err of ErrorObj m \<Rightarrow> m
                 | NonError v \<Rightarrow> ''The abyss rejected your request.'')
          in (s2\<lparr>error := Some \<lparr>message = errorMessage\<rparr>, loading := False\<rparr>,
              fx2\<lparr>toasts := toasts fx2 @ [toast_error ''Ritual Failed'' errorMessage]\<rparr>)))"




text \<open>The state of \<^verbatim>\<open>Home\<close> when it is first rendered: the initial values of lines 29 to 33.\<close>

definition initial_state :: Home_state where
  "initial_state = \<lparr>prompt = [], type = TypeText, result = None, loading = False, error = None\<rparr>"

section \<open>Example inputs\<close>

text \<open>A provider that answers every prompt with the text \<open>t\<close>, and one that always throws.\<close>

definition constant_provider :: "string \<Rightarrow> provider" where
  "constant_provider t key model p = Inr t"

definition failing_provider :: "thrown \<Rightarrow> provider" where
  "failing_provider ex key model p = Inl ex"

text \<open>
  A number formatting to run the examples with: \<^verbatim>\<open>Number.prototype.toString\<close> on NaN, the
  infinities and the integers of magnitude below \<open>10^21\<close>. It drops the fraction of any other
  number; the examples contain none.
\<close>

definition integer_text :: "jsnum \<Rightarrow> string" where
  "integer_text n =
     (case n of
        Finite r \<Rightarrow> (if r < 0 then ''-'' else []) @ show_nat (nat \<bar>\<lfloor>r\<rfloor>\<bar>)
      | PosInfinity \<Rightarrow> ''Infinity''
      | NegInfinity \<Rightarrow> ''-Infinity''
      | NaN \<Rightarrow> ''NaN'')"

text \<open>A network that answers every request with the response \<open>r\<close>, and one that is down.\<close>

definition reply :: "fetch_response \<Rightarrow> jsval \<Rightarrow> fetch_outcome" where
  "reply r b = Resolved r"

definition unreachable :: "thrown \<Rightarrow> jsval \<Rightarrow> fetch_outcome" where
  "unreachable ex b = Rejected ex"


section \<open>Properties of the endpoint\<close>

lemma POST_configured:
  assumes "GEMINI_API_KEY e = Some key" and "key \<noteq> []"
  shows "POST_try e req prov = POST_with_key key req prov"
  using assms by (simp add: POST_try_def)

text \<open>The handler after the body has been parsed and its two properties read.\<close>

lemma POST_with_key_fields:
  assumes "get_prop b ''prompt'' = Inr p" and "get_prop b ''type'' = Inr t"
  shows "POST_with_key key (Parsed b) prov =
    (if \<not> truthy p \<or> \<not> truthy t \<or> \<not> includes_js [''text'', ''image''] t then
       (Inr (NextResponse_json
              (error_body ''Prompt and valid type (text or image) are required'') 400),
        no_effects\<lparr>body_read := True\<rparr>)
     else if t = JStr ''text'' then
       (case prov key ''gemini-1.5-flash'' p of
          Inl ex \<Rightarrow>
            (Inl ex,
             no_effects\<lparr>body_read := True,
               provider_calls := [(key, ''gemini-1.5-flash'', p)]\<rparr>)
        | Inr text \<Rightarrow>
            (Inr (NextResponse_json
                   (JObj [(''type'', JStr ''text''), (''content'', JStr text)]) 200),
             no_effects\<lparr>body_read := True,
               provider_calls := [(key, ''gemini-1.5-flash'', p)]\<rparr>))
     else
       (Inr (NextResponse_json
              (error_body ''Image generation not supported in this version'') 501),
        no_effects\<lparr>body_read := True\<rparr>))"
  using assms by (simp add: POST_with_key_def Let_def)

text \<open>An exception that leaves the \<^verbatim>\<open>try\<close> block is logged and answered with status 500.\<close>

lemma POST_catch:
  assumes "POST_try e req prov = (Inl ex, fx)"
  shows "POST e req prov =
    (\<lparr>status = 500,
      body = JObj [(''error'',
               JStr (case ex of ErrorObj m \<Rightarrow> m | NonError v \<Rightarrow> ''Internal server error''))]\<rparr>,
     fx\<lparr>console_errors := console_errors fx @ [ex]\<rparr>)"
  using assms by (simp add: POST_def NextResponse_json_def error_body_def)

lemma POST_return:
  assumes "POST_try e req prov = (Inr r, fx)"
  shows "POST e req prov = (r, fx)"
  using assms by (simp add: POST_def)

text \<open>The \<^verbatim>\<open>catch\<close> clause calls no provider.\<close>

lemma POST_provider_calls:
  "provider_calls (snd (POST e req prov)) = provider_calls (snd (POST_try e req prov))"
  by (auto simp: POST_def split: prod.splits sum.splits)

text \<open>
  The provider is called at most once, and only with a truthy prompt for the type
  \<^verbatim>\<open>"text"\<close>.
\<close>

lemma POST_with_key_calls:
  "provider_calls (snd (POST_with_key key req prov)) = [] \<or>
   (\<exists>p. truthy p \<and> provider_calls (snd (POST_with_key key req prov)) =
      [(key, ''gemini-1.5-flash'', p)])"
  by (auto simp: POST_with_key_def Let_def no_effects_def split: sum.splits)

text \<open>
  C1. For every request with a non-empty prompt and type equal to "text", when the
  external provider returns the text \<open>T\<close>, the endpoint (with the credential configured)
  responds with status 200 and body \<^verbatim>\<open>{ "type": "text", "content": T }\<close>. The provider is
  called once, with that prompt, and nothing is logged.
\<close>

theorem POST_text_success:
  assumes "GEMINI_API_KEY e = Some key" and "key \<noteq> []"
    and "map_of kvs ''prompt'' = Some (JStr p)" and "p \<noteq> []"
    and "map_of kvs ''type'' = Some (JStr ''text'')"
    and "prov key ''gemini-1.5-flash'' (JStr p) = Inr T"
  shows "POST e (Parsed (JObj kvs)) prov =
    (\<lparr>status = 200, body = JObj [(''type'', JStr ''text''), (''content'', JStr T)]\<rparr>,
     \<lparr>body_read = True, provider_calls = [(key, ''gemini-1.5-flash'', JStr p)],
      console_errors = []\<rparr>)"
proof -
  have "POST_try e (Parsed (JObj kvs)) prov =
      (Inr (NextResponse_json (JObj [(''type'', JStr ''text''), (''content'', JStr T)]) 200),
       no_effects\<lparr>body_read := True,
         provider_calls := [(key, ''gemini-1.5-flash'', JStr p)]\<rparr>)"
    using assms by (simp add: POST_configured POST_with_key_fields)
  then show ?thesis
    by (simp add: POST_return NextResponse_json_def no_effects_def)
qed

theorem POST_text_success_witness:
  "POST \<lparr>GEMINI_API_KEY = Some ''k''\<rparr>
     (Parsed (JObj [(''prompt'', JStr ''A haunted castle''), (''type'', JStr ''text'')]))
     (constant_provider ''It was a dark night...'') =
    (\<lparr>status = 200,
      body = JObj [(''type'', JStr ''text''), (''content'', JStr ''It was a dark night...'')]\<rparr>,
     \<lparr>body_read = True,
      provider_calls = [(''k'', ''gemini-1.5-flash'', JStr ''A haunted castle'')],
      console_errors = []\<rparr>)"
  using POST_text_success [of "\<lparr>GEMINI_API_KEY = Some ''k''\<rparr>" "''k''"
      "[(''prompt'', JStr ''A haunted castle''), (''type'', JStr ''text'')]" "''A haunted castle''"
      "constant_provider ''It was a dark night...''" "''It was a dark night...''"]
  by (simp add: constant_provider_def)

text \<open>
  C2 fails as stated: a request with type "image" and an empty prompt is answered with
  the 400 validation error, not with 501, because the validation of line 17 comes first.
\<close>

theorem POST_image_empty_prompt_counterexample:
  "fst (POST \<lparr>GEMINI_API_KEY = Some ''k''\<rparr>
     (Parsed (JObj [(''prompt'', JStr []), (''type'', JStr ''image'')]))
     (constant_provider ''T'')) =
   \<lparr>status = 400,
    body = JObj [(''error'', JStr ''Prompt and valid type (text or image) are required'')]\<rparr>"
  by (simp add: POST_def POST_try_def POST_with_key_def no_effects_def
      NextResponse_json_def error_body_def)

text \<open>
  C2, amended. For every request with type equal to "image" the external provider is
  never invoked, whatever the prompt and the configuration; and when the prompt is truthy
  (a non-empty string, for instance) and the credential is configured, the endpoint
  responds with status 501 and the fixed body
  \<^verbatim>\<open>{ "error": "Image generation not supported in this version" }\<close>.
\<close>

theorem POST_image_unsupported:
  assumes "map_of kvs ''type'' = Some (JStr ''image'')"
  shows "provider_calls (snd (POST e (Parsed (JObj kvs)) prov)) = [] \<and>
    (GEMINI_API_KEY e = Some key \<and> key \<noteq> [] \<and> map_of kvs ''prompt'' = Some p \<and> truthy p \<longrightarrow>
       fst (POST e (Parsed (JObj kvs)) prov) =
         \<lparr>status = 501,
          body = JObj [(''error'', JStr ''Image generation not supported in this version'')]\<rparr>)"
proof -
  have t: "get_prop (JObj kvs) ''type'' = Inr (JStr ''image'')"
    using assms by simp
  obtain q where q: "get_prop (JObj kvs) ''prompt'' = Inr q"
    by simp
  have no_call: "provider_calls (snd (POST_with_key k (Parsed (JObj kvs)) prov)) = []" for k
    by (simp add: POST_with_key_fields [OF q t] no_effects_def)
  have "provider_calls (snd (POST_try e (Parsed (JObj kvs)) prov)) = []"
    using no_call by (simp add: POST_try_def no_effects_def split: option.splits)
  then have first: "provider_calls (snd (POST e (Parsed (JObj kvs)) prov)) = []"
    by (simp add: POST_provider_calls)
  have second: "fst (POST e (Parsed (JObj kvs)) prov) =
         \<lparr>status = 501,
          body = JObj [(''error'', JStr ''Image generation not supported in this version'')]\<rparr>"
    if "GEMINI_API_KEY e = Some key" "key \<noteq> []" "map_of kvs ''prompt'' = Some p" "truthy p"
  proof -
    have "POST_try e (Parsed (JObj kvs)) prov =
        (Inr (NextResponse_json
               (error_body ''Image generation not supported in this version'') 501),
         no_effects\<lparr>body_read := True\<rparr>)"
      using that t by (simp add: POST_configured POST_with_key_fields)
    then show ?thesis
      by (simp add: POST_return NextResponse_json_def error_body_def)
  qed
  from first second show ?thesis by blast
qed

theorem POST_image_unsupported_witness:
  "provider_calls (snd (POST \<lparr>GEMINI_API_KEY = Some ''k''\<rparr>
      (Parsed (JObj [(''prompt'', JStr ''A haunted castle''), (''type'', JStr ''image'')]))
      (constant_provider ''T''))) = [] \<and>
   fst (POST \<lparr>GEMINI_API_KEY = Some ''k''\<rparr>
      (Parsed (JObj [(''prompt'', JStr ''A haunted castle''), (''type'', JStr ''image'')]))
      (constant_provider ''T'')) =
     \<lparr>status = 501,
      body = JObj [(''error'', JStr ''Image generation not supported in this version'')]\<rparr>"
  using POST_image_unsupported [of
      "[(''prompt'', JStr ''A haunted castle''), (''type'', JStr ''image'')]"
      "\<lparr>GEMINI_API_KEY = Some ''k''\<rparr>" "constant_provider ''T''" "''k''"
      "JStr ''A haunted castle''"]
  by simp

text \<open>
  C3. When the server-side credential is not configured (the variable is unset or empty),
  every request, whatever its body, receives status 500 with the fixed body
  \<^verbatim>\<open>{ "error": "Server configuration error: Missing API key" }\<close>. The check comes before
  the body is read and before any external call: the handler has no other effect.
\<close>

theorem POST_missing_key:
  assumes "GEMINI_API_KEY e = None \<or> GEMINI_API_KEY e = Some []"
  shows "POST e req prov =
    (\<lparr>status = 500, body = JObj [(''error'', JStr ''Server configuration error: Missing API key'')]\<rparr>,
     \<lparr>body_read = False, provider_calls = [], console_errors = []\<rparr>)"
proof -
  have "POST_try e req prov = (Inr missing_key_response, no_effects)"
    using assms by (auto simp: POST_try_def)
  then show ?thesis
    by (simp add: POST_return missing_key_response_def NextResponse_json_def error_body_def
        no_effects_def)
qed

theorem POST_missing_key_witness:
  "POST \<lparr>GEMINI_API_KEY = None\<rparr> (Unparseable ''Unexpected end of JSON input'')
      (constant_provider ''T'') =
    (\<lparr>status = 500, body = JObj [(''error'', JStr ''Server configuration error: Missing API key'')]\<rparr>,
     \<lparr>body_read = False, provider_calls = [], console_errors = []\<rparr>)"
  using POST_missing_key [of "\<lparr>GEMINI_API_KEY = None\<rparr>"
      "Unparseable ''Unexpected end of JSON input''" "constant_provider ''T''"]
  by simp

text \<open>
  A property can be read off every value but \<^verbatim>\<open>null\<close> and \<^verbatim>\<open>undefined\<close>; the latter is
  not a JSON value, so of the parsed bodies only \<^verbatim>\<open>null\<close> makes the destructuring throw.
\<close>

lemma get_prop_readable:
  "(\<exists>v. get_prop b k = Inr v) = (b \<noteq> JNull \<and> b \<noteq> JUndefined)"
  by (cases b) simp_all

text \<open>
  C4 fails as stated: the JSON body \<^verbatim>\<open>null\<close> is a body without a prompt and without a
  type, yet with the credential configured the endpoint answers it with status 500, not
  400. The destructuring of line 14 throws on \<^verbatim>\<open>null\<close> before the validation of line 17
  is reached, and the \<^verbatim>\<open>catch\<close> clause answers. The provider is not called.
\<close>

theorem POST_null_body_counterexample:
  "status (fst (POST \<lparr>GEMINI_API_KEY = Some ''k''\<rparr> (Parsed JNull) (constant_provider ''T''))) = 500 \<and>
   provider_calls (snd (POST \<lparr>GEMINI_API_KEY = Some ''k''\<rparr> (Parsed JNull) (constant_provider ''T''))) = []"
  by (simp add: POST_def POST_try_def POST_with_key_def no_effects_def NextResponse_json_def)

text \<open>
  C4, amended. With the credential configured, for every request whose body parses to a
  JSON value other than \<^verbatim>\<open>null\<close> and is missing the prompt or missing the type, or whose
  type is not a member of {"text", "image"}, the endpoint responds with status 400 and body
  \<^verbatim>\<open>{ "error": "Prompt and valid type (text or image) are required" }\<close>, and the external
  provider is never invoked. \<open>p\<close> and \<open>t\<close> are the two properties as the destructuring of
  line 14 reads them off the parsed body \<open>b\<close>, \<open>JUndefined\<close> standing for a missing one:
  they can be read off every value but \<^verbatim>\<open>null\<close>, so \<open>b\<close> may be an object, an array or a
  primitive value.
\<close>

theorem POST_validation_failure:
  assumes "GEMINI_API_KEY e = Some key" and "key \<noteq> []"
    and "get_prop b ''prompt'' = Inr p" and "get_prop b ''type'' = Inr t"
    and "p = JUndefined \<or> t = JUndefined \<or> \<not> includes_js [''text'', ''image''] t"
  shows "POST e (Parsed b) prov =
    (\<lparr>status = 400,
      body = JObj [(''error'', JStr ''Prompt and valid type (text or image) are required'')]\<rparr>,
     \<lparr>body_read = True, provider_calls = [], console_errors = []\<rparr>)"
proof -
  from assms(5) have "\<not> truthy p \<or> \<not> truthy t \<or> \<not> includes_js [''text'', ''image''] t"
    by auto
  then have "POST_try e (Parsed b) prov =
      (Inr (NextResponse_json
             (error_body ''Prompt and valid type (text or image) are required'') 400),
       no_effects\<lparr>body_read := True\<rparr>)"
    using assms(1-4) by (simp add: POST_configured POST_with_key_fields)
  then show ?thesis
    by (simp add: POST_return NextResponse_json_def error_body_def no_effects_def)
qed

theorem POST_validation_failure_witness:
  "POST \<lparr>GEMINI_API_KEY = Some ''k''\<rparr>
      (Parsed (JObj [(''prompt'', JStr ''A haunted castle''), (''type'', JStr ''video'')]))
      (constant_provider ''T'') =
    (\<lparr>status = 400,
      body = JObj [(''error'', JStr ''Prompt and valid type (text or image) are required'')]\<rparr>,
     \<lparr>body_read = True, provider_calls = [], console_errors = []\<rparr>)"
  using POST_validation_failure [of "\<lparr>GEMINI_API_KEY = Some ''k''\<rparr>" "''k''"
      "JObj [(''prompt'', JStr ''A haunted castle''), (''type'', JStr ''video'')]"
      "JStr ''A haunted castle''" "JStr ''video''" "constant_provider ''T''"]
  by simp

text \<open>
  C5 fails as stated: the endpoint does not trim. A prompt of one space is empty after
  trimming, yet the request is forwarded to the provider and answered with status 200.
\<close>

theorem POST_blank_prompt_counterexample:
  "trim '' '' = [] \<and>
   POST \<lparr>GEMINI_API_KEY = Some ''k''\<rparr>
      (Parsed (JObj [(''prompt'', JStr '' ''), (''type'', JStr ''text'')]))
      (constant_provider ''T'') =
    (\<lparr>status = 200, body = JObj [(''type'', JStr ''text''), (''content'', JStr ''T'')]\<rparr>,
     \<lparr>body_read = True, provider_calls = [(''k'', ''gemini-1.5-flash'', JStr '' '')],
      console_errors = []\<rparr>)"
  by (simp add: trim_def is_white_space_def POST_def POST_try_def POST_with_key_def
      no_effects_def NextResponse_json_def constant_provider_def)

text \<open>
  C5, amended. With the credential configured, for every request whose prompt is the empty
  string (as it is, without trimming), the endpoint rejects the request as a validation
  failure with status 400 and never forwards it to the external provider.
\<close>

theorem POST_empty_prompt:
  assumes "GEMINI_API_KEY e = Some key" and "key \<noteq> []"
    and "map_of kvs ''prompt'' = Some (JStr [])"
  shows "POST e (Parsed (JObj kvs)) prov =
    (\<lparr>status = 400,
      body = JObj [(''error'', JStr ''Prompt and valid type (text or image) are required'')]\<rparr>,
     \<lparr>body_read = True, provider_calls = [], console_errors = []\<rparr>)"
proof -
  obtain t where t: "get_prop (JObj kvs) ''type'' = Inr t"
    by simp
  have p: "get_prop (JObj kvs) ''prompt'' = Inr (JStr [])"
    using assms(3) by simp
  have "POST_try e (Parsed (JObj kvs)) prov =
      (Inr (NextResponse_json
             (error_body ''Prompt and valid type (text or image) are required'') 400),
       no_effects\<lparr>body_read := True\<rparr>)"
    using assms(1,2) by (simp add: POST_configured POST_with_key_fields [OF p t])
  then show ?thesis
    by (simp add: POST_return NextResponse_json_def error_body_def no_effects_def)
qed

theorem POST_empty_prompt_witness:
  "POST \<lparr>GEMINI_API_KEY = Some ''k''\<rparr>
      (Parsed (JObj [(''prompt'', JStr []), (''type'', JStr ''text'')]))
      (constant_provider ''T'') =
    (\<lparr>status = 400,
      body = JObj [(''error'', JStr ''Prompt and valid type (text or image) are required'')]\<rparr>,
     \<lparr>body_read = True, provider_calls = [], console_errors = []\<rparr>)"
  using POST_empty_prompt [of "\<lparr>GEMINI_API_KEY = Some ''k''\<rparr>" "''k''"
      "[(''prompt'', JStr []), (''type'', JStr ''text'')]" "constant_provider ''T''"]
  by simp

text \<open>
  C6. Every exception raised while calling the external provider is caught: it leaves the
  \<^verbatim>\<open>try\<close> block, is logged, and the endpoint responds with status 500 and an \<^verbatim>\<open>error\<close>
  field that is the exception's message when it is an \<^verbatim>\<open>Error\<close> and
  \<^verbatim>\<open>"Internal server error"\<close> otherwise. The handler returns this response; nothing is
  thrown to its caller.
\<close>

theorem POST_provider_exception:
  assumes "GEMINI_API_KEY e = Some key" and "key \<noteq> []"
    and "get_prop b ''prompt'' = Inr p" and "truthy p"
    and "get_prop b ''type'' = Inr (JStr ''text'')"
    and "prov key ''gemini-1.5-flash'' p = Inl ex"
  shows "POST e (Parsed b) prov =
    (\<lparr>status = 500,
      body = JObj [(''error'',
               JStr (case ex of ErrorObj m \<Rightarrow> m | NonError v \<Rightarrow> ''Internal server error''))]\<rparr>,
     \<lparr>body_read = True, provider_calls = [(key, ''gemini-1.5-flash'', p)],
      console_errors = [ex]\<rparr>)"
proof -
  have "POST_try e (Parsed b) prov =
      (Inl ex, no_effects\<lparr>body_read := True,
                 provider_calls := [(key, ''gemini-1.5-flash'', p)]\<rparr>)"
    using assms by (simp add: POST_configured POST_with_key_fields)
  then show ?thesis
    by (simp add: POST_catch no_effects_def)
qed

theorem POST_provider_exception_witness:
  "POST \<lparr>GEMINI_API_KEY = Some ''k''\<rparr>
      (Parsed (JObj [(''prompt'', JStr ''A haunted castle''), (''type'', JStr ''text'')]))
      (failing_provider (ErrorObj ''fetch failed'')) =
    (\<lparr>status = 500, body = JObj [(''error'', JStr ''fetch failed'')]\<rparr>,
     \<lparr>body_read = True,
      provider_calls = [(''k'', ''gemini-1.5-flash'', JStr ''A haunted castle'')],
      console_errors = [ErrorObj ''fetch failed'']\<rparr>)"
  using POST_provider_exception [of "\<lparr>GEMINI_API_KEY = Some ''k''\<rparr>" "''k''"
      "JObj [(''prompt'', JStr ''A haunted castle''), (''type'', JStr ''text'')]"
      "JStr ''A haunted castle''" "failing_provider (ErrorObj ''fetch failed'')"
      "ErrorObj ''fetch failed''"]
  by (simp add: failing_provider_def)

text \<open>
  C10. With the credential configured, for every request whose body is not parseable as
  JSON the endpoint responds with status 500 carrying the parse exception's message, not
  with the 400 validation error: \<^verbatim>\<open>req.json()\<close> throws inside the \<^verbatim>\<open>try\<close> block, after the
  credential check, and the \<^verbatim>\<open>catch\<close> clause answers. The provider is not called.
\<close>

theorem POST_unparseable_body:
  assumes "GEMINI_API_KEY e = Some key" and "key \<noteq> []"
  shows "POST e (Unparseable m) prov =
    (\<lparr>status = 500, body = JObj [(''error'', JStr m)]\<rparr>,
     \<lparr>body_read = True, provider_calls = [], console_errors = [ErrorObj m]\<rparr>)"
proof -
  have "POST_try e (Unparseable m) prov = (Inl (ErrorObj m), no_effects\<lparr>body_read := True\<rparr>)"
    using assms by (simp add: POST_configured POST_with_key_def)
  then show ?thesis
    by (simp add: POST_catch no_effects_def)
qed

theorem POST_unparseable_body_witness:
  "POST \<lparr>GEMINI_API_KEY = Some ''k''\<rparr> (Unparseable ''Unexpected end of JSON input'')
      (constant_provider ''T'') =
    (\<lparr>status = 500, body = JObj [(''error'', JStr ''Unexpected end of JSON input'')]\<rparr>,
     \<lparr>body_read = True, provider_calls = [],
      console_errors = [ErrorObj ''Unexpected end of JSON input'']\<rparr>)"
  using POST_unparseable_body [of "\<lparr>GEMINI_API_KEY = Some ''k''\<rparr>" "''k''"
      "''Unexpected end of JSON input''" "constant_provider ''T''"]
  by simp

section \<open>Properties of the form component\<close>

lemma handleSubmit_rejected:
  assumes "\<not> isFormValid s"
  shows "handleSubmit nf net s =
    (s\<lparr>error := Some \<lparr>message = ''A valid incantation and type are required.''\<rparr>\<rparr>,
     \<lparr>fetches = [],
      toasts = [toast_error ''Forbidden Incantation''
                 ''Provide a proper prompt and select a creation type.'']\<rparr>)"
  using assms by (simp add: handleSubmit_def)

text \<open>The \<^verbatim>\<open>catch\<close> and \<^verbatim>\<open>finally\<close> clauses, after an exception has left the \<^verbatim>\<open>try\<close> block.\<close>

lemma handleSubmit_caught:
  assumes "isFormValid s"
    and "submit_try nf (net (request_body s)) (submit_start s)
           \<lparr>fetches = [request_body s], toasts = []\<rparr> = (Some ex, s2, fx2)"
  shows "handleSubmit nf net s =
    (s2\<lparr>error := Some \<lparr>message =
           (case ex of ErrorObj m \<Rightarrow> m | NonError v \<Rightarrow> ''The abyss rejected your request.'')\<rparr>,
        loading := False\<rparr>,
     fx2\<lparr>toasts := toasts fx2 @
        [toast_error ''Ritual Failed''
          (case ex of ErrorObj m \<Rightarrow> m | NonError v \<Rightarrow> ''The abyss rejected your request.'')]\<rparr>)"
  using assms by (simp add: handleSubmit_def Let_def)

lemma handleSubmit_completed:
  assumes "isFormValid s"
    and "submit_try nf (net (request_body s)) (submit_start s)
           \<lparr>fetches = [request_body s], toasts = []\<rparr> = (None, s2, fx2)"
  shows "handleSubmit nf net s = (s2\<lparr>loading := False\<rparr>, fx2)"
  using assms by (simp add: handleSubmit_def)

text \<open>
  The \<^verbatim>\<open>try\<close> block changes the state in one place only, \<^verbatim>\<open>setResult(data)\<close>; an exception
  can follow it only from the conversion of \<^verbatim>\<open>data.type\<close> to a string.
\<close>

lemma submit_try_throws:
  assumes "submit_try nf outcome s fx = (Some ex, s2, fx2)"
  shows "s2 = s \<or>
    (\<exists>r data t. outcome = Resolved r \<and> ok r \<and> resp_payload r = Parsed data \<and>
       get_prop data ''type'' = Inr t \<and> ToString nf t = Inl ex \<and>
       s2 = s\<lparr>result := Some data\<rparr>)"
proof (cases outcome)
  case (Rejected x)
  with assms show ?thesis by (simp add: submit_try_def)
next
  case (Resolved r)
  show ?thesis
  proof (cases "ok r")
    case False
    with assms Resolved show ?thesis
      by (auto simp: submit_try_def Let_def split: sum.splits if_splits)
  next
    case True
    show ?thesis
    proof (cases "resp_payload r")
      case (Unparseable m)
      with assms Resolved True show ?thesis by (simp add: submit_try_def)
    next
      case (Parsed data)
      with assms Resolved True show ?thesis
        by (auto simp: submit_try_def Let_def split: sum.splits if_splits)
    qed
  qed
qed

text \<open>A 2xx response whose body has been parsed and whose two properties have been read.\<close>

lemma submit_try_ok:
  assumes "ok r" and "resp_payload r = Parsed data"
    and "get_prop data ''type'' = Inr t" and "get_prop data ''content'' = Inr c"
  shows "submit_try nf (Resolved r) s fx =
    (if \<not> truthy t then (Some invalid_response, s, fx)
     else if \<not> truthy c then (Some invalid_response, s, fx)
     else (case ToString nf t of
             Inl ex \<Rightarrow> (Some ex, s\<lparr>result := Some data\<rparr>, fx)
           | Inr ts \<Rightarrow>
             (None, s\<lparr>result := Some data\<rparr>,
              fx\<lparr>toasts := toasts fx @
                 [toast_success ''Creation Summoned''
                   (''Your '' @ ts @ '' has emerged from the shadows.'')]\<rparr>)))"
  using assms by (simp add: submit_try_def Let_def)

text \<open>
  C7 fails as stated: on the local validation rejection the stored result is not cleared.
  Here the prompt is empty and a result is stored; after the submission the result is still
  there, and no request was sent.
\<close>

theorem handleSubmit_rejection_keeps_result_counterexample:
  "handleSubmit integer_text (unreachable (ErrorObj ''Failed to fetch''))
     (initial_state\<lparr>result := Some (JObj [(''type'', JStr ''text''), (''content'', JStr ''Hello'')])\<rparr>) =
   (\<lparr>prompt = [], type = TypeText,
     result = Some (JObj [(''type'', JStr ''text''), (''content'', JStr ''Hello'')]),
     loading = False,
     error = Some \<lparr>message = ''A valid incantation and type are required.''\<rparr>\<rparr>,
    \<lparr>fetches = [],
     toasts = [toast_error ''Forbidden Incantation''
                ''Provide a proper prompt and select a creation type.'']\<rparr>)"
  by (simp add: handleSubmit_def isFormValid_def trim_def initial_state_def)

text \<open>
  C7, amended. On the local validation rejection the handler stores an error message and
  issues no network call; the stored result and the loading flag stay as they were. On
  every failure path that reaches the network step, that is whenever an exception \<open>ex\<close>
  leaves the \<^verbatim>\<open>try\<close> block, an error message is stored (the message of \<open>ex\<close>, or a fixed
  text when \<open>ex\<close> is not an \<^verbatim>\<open>Error\<close>), the loading flag ends up false and the prior result
  has been cleared: the result is null, unless \<open>ex\<close> was thrown after the new response had
  been stored, by the conversion of its \<^verbatim>\<open>type\<close> to a string, in which case the result is
  that response.
\<close>

theorem handleSubmit_failure_paths:
  "(\<not> isFormValid s \<longrightarrow>
      handleSubmit nf net s =
        (s\<lparr>error := Some \<lparr>message = ''A valid incantation and type are required.''\<rparr>\<rparr>,
         \<lparr>fetches = [],
          toasts = [toast_error ''Forbidden Incantation''
                     ''Provide a proper prompt and select a creation type.'']\<rparr>)) \<and>
   (isFormValid s \<and>
    fst (submit_try nf (net (request_body s)) (submit_start s)
          \<lparr>fetches = [request_body s], toasts = []\<rparr>) = Some ex \<longrightarrow>
      error (fst (handleSubmit nf net s)) =
        Some \<lparr>message =
          (case ex of ErrorObj m \<Rightarrow> m | NonError v \<Rightarrow> ''The abyss rejected your request.'')\<rparr> \<and>
      loading (fst (handleSubmit nf net s)) = False \<and>
      (result (fst (handleSubmit nf net s)) = None \<or>
       (\<exists>r data t. net (request_body s) = Resolved r \<and> ok r \<and> resp_payload r = Parsed data \<and>
          get_prop data ''type'' = Inr t \<and> ToString nf t = Inl ex \<and>
          result (fst (handleSubmit nf net s)) = Some data)))"
proof (intro conjI impI)
  assume "\<not> isFormValid s"
  then show "handleSubmit nf net s =
        (s\<lparr>error := Some \<lparr>message = ''A valid incantation and type are required.''\<rparr>\<rparr>,
         \<lparr>fetches = [],
          toasts = [toast_error ''Forbidden Incantation''
                     ''Provide a proper prompt and select a creation type.'']\<rparr>)"
    by (rule handleSubmit_rejected)
next
  assume a: "isFormValid s \<and>
    fst (submit_try nf (net (request_body s)) (submit_start s)
          \<lparr>fetches = [request_body s], toasts = []\<rparr>) = Some ex"
  then obtain s2 fx2 where
    t: "submit_try nf (net (request_body s)) (submit_start s)
          \<lparr>fetches = [request_body s], toasts = []\<rparr> = (Some ex, s2, fx2)"
    by (metis fst_conv surj_pair)
  from a have valid: "isFormValid s" by simp
  have h: "handleSubmit nf net s =
    (s2\<lparr>error := Some \<lparr>message =
           (case ex of ErrorObj m \<Rightarrow> m | NonError v \<Rightarrow> ''The abyss rejected your request.'')\<rparr>,
        loading := False\<rparr>,
     fx2\<lparr>toasts := toasts fx2 @
        [toast_error ''Ritual Failed''
          (case ex of ErrorObj m \<Rightarrow> m | NonError v \<Rightarrow> ''The abyss rejected your request.'')]\<rparr>)"
    using valid t by (rule handleSubmit_caught)
  show "error (fst (handleSubmit nf net s)) =
        Some \<lparr>message =
          (case ex of ErrorObj m \<Rightarrow> m | NonError v \<Rightarrow> ''The abyss rejected your request.'')\<rparr>"
    by (simp add: h)
  show "loading (fst (handleSubmit nf net s)) = False"
    by (simp add: h)
  from submit_try_throws [OF t]
  show "result (fst (handleSubmit nf net s)) = None \<or>
       (\<exists>r data t. net (request_body s) = Resolved r \<and> ok r \<and> resp_payload r = Parsed data \<and>
          get_prop data ''type'' = Inr t \<and> ToString nf t = Inl ex \<and>
          result (fst (handleSubmit nf net s)) = Some data)"
  proof
    assume "s2 = submit_start s"
    then show ?thesis by (simp add: h submit_start_def)
  next
    assume "\<exists>r data t. net (request_body s) = Resolved r \<and> ok r \<and>
       resp_payload r = Parsed data \<and> get_prop data ''type'' = Inr t \<and>
       ToString nf t = Inl ex \<and> s2 = submit_start s\<lparr>result := Some data\<rparr>"
    then show ?thesis by (auto simp: h)
  qed
qed

theorem handleSubmit_failure_paths_witness:
  "handleSubmit integer_text (unreachable (ErrorObj ''Failed to fetch''))
     (initial_state\<lparr>prompt := ''   ''\<rparr>) =
     (initial_state\<lparr>prompt := ''   '',
        error := Some \<lparr>message = ''A valid incantation and type are required.''\<rparr>\<rparr>,
      \<lparr>fetches = [],
       toasts = [toast_error ''Forbidden Incantation''
                  ''Provide a proper prompt and select a creation type.'']\<rparr>) \<and>
   error (fst (handleSubmit integer_text (unreachable (ErrorObj ''Failed to fetch''))
     (initial_state\<lparr>prompt := ''Write a dark tale''\<rparr>))) =
     Some \<lparr>message = ''Failed to fetch''\<rparr> \<and>
   loading (fst (handleSubmit integer_text (unreachable (ErrorObj ''Failed to fetch''))
     (initial_state\<lparr>prompt := ''Write a dark tale''\<rparr>))) = False \<and>
   result (fst (handleSubmit integer_text (unreachable (ErrorObj ''Failed to fetch''))
     (initial_state\<lparr>prompt := ''Write a dark tale''\<rparr>))) = None"
  using handleSubmit_failure_paths [of "initial_state\<lparr>prompt := ''   ''\<rparr>" integer_text
      "unreachable (ErrorObj ''Failed to fetch'')" "ErrorObj ''Failed to fetch''"]
    handleSubmit_failure_paths [of "initial_state\<lparr>prompt := ''Write a dark tale''\<rparr>" integer_text
      "unreachable (ErrorObj ''Failed to fetch'')" "ErrorObj ''Failed to fetch''"]
  by (simp add: isFormValid_def trim_def is_white_space_def GENERATION_TYPES_def
      initial_state_def submit_try_def unreachable_def)

text \<open>
  C8 fails as stated: a 2xx response in which both fields are present, the content being
  the empty string, is not stored but treated as an invalid response.
\<close>

theorem handleSubmit_empty_content_counterexample:
  "handleSubmit integer_text
     (reply \<lparr>resp_status = 200,
             resp_payload = Parsed (JObj [(''type'', JStr ''text''), (''content'', JStr [])])\<rparr>)
     (initial_state\<lparr>prompt := ''Write a dark tale''\<rparr>) =
   (\<lparr>prompt = ''Write a dark tale'', type = TypeText, result = None, loading = False,
     error = Some \<lparr>message = ''Invalid response from the abyss''\<rparr>\<rparr>,
    \<lparr>fetches = [JObj [(''prompt'', JStr ''Write a dark tale''), (''type'', JStr ''text'')]],
     toasts = [toast_error ''Ritual Failed'' ''Invalid response from the abyss'']\<rparr>)"
  by (simp add: handleSubmit_def isFormValid_def trim_def is_white_space_def
      GENERATION_TYPES_def initial_state_def request_body_def submit_start_def reply_def
      submit_try_def ok_def invalid_response_def Let_def)

text \<open>
  C8, amended. When the client receives a success (2xx) response whose body is a JSON value
  with readable properties (any value but \<^verbatim>\<open>null\<close>), it requires both the type and the
  content to be truthy: if either is missing or falsy (an empty string, for instance) it
  treats the response as a failure with the invalid-response error, storing no result; and
  otherwise it stores the response as the result.
\<close>

theorem handleSubmit_success_response:
  assumes "isFormValid s" and "net (request_body s) = Resolved r" and "ok r"
    and "resp_payload r = Parsed data"
    and "get_prop data ''type'' = Inr t" and "get_prop data ''content'' = Inr c"
  shows "(truthy t \<and> truthy c \<longrightarrow> result (fst (handleSubmit nf net s)) = Some data) \<and>
    (\<not> (truthy t \<and> truthy c) \<longrightarrow>
       handleSubmit nf net s =
         (s\<lparr>loading := False, result := None,
            error := Some \<lparr>message = ''Invalid response from the abyss''\<rparr>\<rparr>,
          \<lparr>fetches = [request_body s],
           toasts = [toast_error ''Ritual Failed'' ''Invalid response from the abyss'']\<rparr>))"
proof -
  note st = submit_try_ok [OF assms(3-6)]
  have stored: "result (fst (handleSubmit nf net s)) = Some data" if "truthy t" "truthy c"
  proof (cases "ToString nf t")
    case (Inl ex)
    with that assms(1,2) show ?thesis
      by (simp add: handleSubmit_def st Let_def)
  next
    case (Inr ts)
    with that assms(1,2) show ?thesis
      by (simp add: handleSubmit_def st)
  qed
  have invalid: "handleSubmit nf net s =
         (s\<lparr>loading := False, result := None,
            error := Some \<lparr>message = ''Invalid response from the abyss''\<rparr>\<rparr>,
          \<lparr>fetches = [request_body s],
           toasts = [toast_error ''Ritual Failed'' ''Invalid response from the abyss'']\<rparr>)"
    if "\<not> (truthy t \<and> truthy c)"
    using that assms(1,2)
    by (auto simp: handleSubmit_def st Let_def invalid_response_def submit_start_def)
  from stored invalid show ?thesis by blast
qed

theorem handleSubmit_success_response_witness:
  "result (fst (handleSubmit integer_text
     (reply \<lparr>resp_status = 200,
             resp_payload = Parsed (JObj [(''type'', JStr ''text''), (''content'', JStr ''Hello'')])\<rparr>)
     (initial_state\<lparr>prompt := ''Write a dark tale''\<rparr>))) =
     Some (JObj [(''type'', JStr ''text''), (''content'', JStr ''Hello'')]) \<and>
   handleSubmit integer_text
     (reply \<lparr>resp_status = 200, resp_payload = Parsed (JObj [(''type'', JStr ''text'')])\<rparr>)
     (initial_state\<lparr>prompt := ''Write a dark tale''\<rparr>) =
     (initial_state\<lparr>prompt := ''Write a dark tale'', loading := False, result := None,
        error := Some \<lparr>message = ''Invalid response from the abyss''\<rparr>\<rparr>,
      \<lparr>fetches = [request_body (initial_state\<lparr>prompt := ''Write a dark tale''\<rparr>)],
       toasts = [toast_error ''Ritual Failed'' ''Invalid response from the abyss'']\<rparr>)"
  using handleSubmit_success_response [of "initial_state\<lparr>prompt := ''Write a dark tale''\<rparr>"
      "reply \<lparr>resp_status = 200,
             resp_payload = Parsed (JObj [(''type'', JStr ''text''), (''content'', JStr ''Hello'')])\<rparr>"
      "\<lparr>resp_status = 200,
        resp_payload = Parsed (JObj [(''type'', JStr ''text''), (''content'', JStr ''Hello'')])\<rparr>"
      "JObj [(''type'', JStr ''text''), (''content'', JStr ''Hello'')]"
      "JStr ''text''" "JStr ''Hello''" integer_text]
    handleSubmit_success_response [of "initial_state\<lparr>prompt := ''Write a dark tale''\<rparr>"
      "reply \<lparr>resp_status = 200, resp_payload = Parsed (JObj [(''type'', JStr ''text'')])\<rparr>"
      "\<lparr>resp_status = 200, resp_payload = Parsed (JObj [(''type'', JStr ''text'')])\<rparr>"
      "JObj [(''type'', JStr ''text'')]"
      "JStr ''text''" "JUndefined" integer_text]
  by (simp add: isFormValid_def trim_def is_white_space_def GENERATION_TYPES_def
      initial_state_def reply_def ok_def)




end
